theory Spec2Isabelle
  imports Main "HOL-Library.Word"
begin

section \<open>The storage client of the worker nodes (node-client/ipfs_client.py)\<close>

text \<open>
  The module holds two classes, \<^verbatim>\<open>IPFSClient\<close> (the hosted Pinata service or a local IPFS
  daemon, chosen by \<^verbatim>\<open>use_pinata\<close>) and \<^verbatim>\<open>MockIPFSClient\<close> (a directory on disk), and the
  factory \<^verbatim>\<open>get_ipfs_client\<close>. Every method is embedded as a function that takes the
  state it reads and returns the state it leaves:
  \<^item> the file system and the log of HTTP requests sent so far form the \<open>world\<close>;
  \<^item> an exception is the value \<open>Inl e\<close>, a normal return \<open>Inr v\<close>; a \<^verbatim>\<open>try/except Exception\<close>
    turns \<open>Inl e\<close> into the handler's return value;
  \<^item> what lies outside the repository is a parameter: the remote services (\<open>net\<close>, from
    a request to an exception or a response), the process environment (\<open>env\<close>) and the
    library functions \<^verbatim>\<open>hashlib.sha256\<close>, \<^verbatim>\<open>json.dumps\<close>, \<^verbatim>\<open>json.load\<close> (the record \<open>pylib\<close>).
  Console output (\<^verbatim>\<open>print\<close>) is not modelled.
\<close>

subsection \<open>Bytes, exceptions and JSON values\<close>

type_synonym byte = "8 word"
type_synonym bytes = "byte list"

datatype exn =
    ConnectError
  | TimeoutException
  | FileNotFoundError
  | IsADirectoryError
  | FileExistsError
  | JSONDecodeError
  | KeyError
  | TypeError
  | AttributeError

text \<open>
  A JSON document as Python holds it after \<^verbatim>\<open>json.load\<close>: a dict is an association list in
  insertion order. A float is kept as the pair (mantissa, decimal exponent) of its literal;
  no arithmetic is done on it.
\<close>

datatype json =
    JNull
  | JBool bool
  | JInt int
  | JFloat int int
  | JStr string
  | JArr "json list"
  | JObj "(string \<times> json) list"

text \<open>\<^verbatim>\<open>d[k] = v\<close> on a dict: an existing key keeps its place, a new key goes last.\<close>

fun dict_set :: "string \<Rightarrow> json \<Rightarrow> (string \<times> json) list \<Rightarrow> (string \<times> json) list" where
  "dict_set k v [] = [(k, v)]"
| "dict_set k v (p # ps) = (if fst p = k then (k, v) # ps else p # dict_set k v ps)"

text \<open>\<^verbatim>\<open>obj[k]\<close> with a string key: a dict looks the key up (\<^verbatim>\<open>KeyError\<close> when it is
  missing), every other JSON value raises \<^verbatim>\<open>TypeError\<close>.\<close>

fun py_getitem :: "json \<Rightarrow> string \<Rightarrow> exn + json" where
  "py_getitem (JObj kvs) k = (case map_of kvs k of Some v \<Rightarrow> Inr v | None \<Rightarrow> Inl KeyError)"
| "py_getitem _ k = Inl TypeError"

text \<open>\<^verbatim>\<open>obj[k] = v\<close> with a string key: only a dict accepts it.\<close>

fun py_setitem :: "json \<Rightarrow> string \<Rightarrow> json \<Rightarrow> exn + json" where
  "py_setitem (JObj kvs) k v = Inr (JObj (dict_set k v kvs))"
| "py_setitem _ k v = Inl TypeError"

text \<open>The library functions the module calls. \<open>json_dumps\<close> stands for \<^verbatim>\<open>json.dumps(d).encode()\<close>
  and for \<^verbatim>\<open>json.dump(d, f)\<close> on a text file, \<open>json_dumps_indent\<close> for \<^verbatim>\<open>json.dump(d, f, indent=2)\<close>,
  \<open>json_loads\<close> for \<^verbatim>\<open>json.load(f)\<close> and \<^verbatim>\<open>response.json()\<close> on the bytes read; \<open>tempname\<close>
  is the path \<^verbatim>\<open>tempfile.NamedTemporaryFile\<close> hands out.\<close>

datatype path = Path (is_abs: bool) (parts: "string list")

record pylib =
  sha256 :: "bytes \<Rightarrow> bytes"
  json_dumps :: "json \<Rightarrow> bytes"
  json_dumps_indent :: "json \<Rightarrow> bytes"
  json_loads :: "bytes \<Rightarrow> exn + json"
  tempname :: path

subsection \<open>Strings: \<^verbatim>\<open>str.replace\<close>, \<^verbatim>\<open>str.strip\<close>, truthiness\<close>

definition startswith :: "string \<Rightarrow> string \<Rightarrow> bool" where
  "startswith s p = (take (length p) s = p)"

text \<open>\<^verbatim>\<open>s.replace(old, new)\<close> for a non-empty \<open>old\<close>: every occurrence found scanning from the
  left, without overlaps, is replaced. (The module only calls it with \<^verbatim>\<open>'ipfs://'\<close>; for an
  empty \<open>old\<close> the function below returns \<open>s\<close>.)\<close>

function py_replace :: "string \<Rightarrow> string \<Rightarrow> string \<Rightarrow> string" where
  "py_replace old new [] = []"
| "py_replace old new (c # cs) =
     (if old \<noteq> [] \<and> startswith (c # cs) old
      then new @ py_replace old new (drop (length old) (c # cs))
      else c # py_replace old new cs)"
  by pat_completeness auto
termination
  by (relation "measure (\<lambda>(old, new, s). length s)") auto

text \<open>The characters \<^verbatim>\<open>str.strip()\<close> removes, among the code points below 256:
  tab, line feed, vertical tab, form feed, carriage return, the separators 28 to 31,
  space, NEL (133) and the no-break space (160).\<close>

definition is_space :: "char \<Rightarrow> bool" where
  "is_space c = (of_char c \<in> {9, 10, 11, 12, 13, 28, 29, 30, 31, 32, 133, 160 :: nat})"

definition py_strip :: "string \<Rightarrow> string" where
  "py_strip s = rev (dropWhile is_space (rev (dropWhile is_space s)))"

text \<open>The line \<^verbatim>\<open>cid = cid.replace('ipfs://', '').strip()\<close> of the read paths.\<close>

definition clean_cid :: "string \<Rightarrow> string" where
  "clean_cid cid = py_strip (py_replace ''ipfs://'' [] cid)"

text \<open>Truthiness of an optional string (\<^verbatim>\<open>None\<close> and \<^verbatim>\<open>''\<close> are false) and \<^verbatim>\<open>a or b\<close>.\<close>

fun truthy :: "string option \<Rightarrow> bool" where
  "truthy None = False"
| "truthy (Some s) = (s \<noteq> [])"

definition py_or :: "string option \<Rightarrow> string \<Rightarrow> string" where
  "py_or a b = (if truthy a then the a else b)"

subsection \<open>Paths (\<^verbatim>\<open>pathlib\<close>) and the file system\<close>

text \<open>
  A \<^verbatim>\<open>pathlib.Path\<close> is its anchor (absolute or not) and its list of components; building one
  from a string drops empty and \<^verbatim>\<open>'.'\<close> components. \<^verbatim>\<open>p / s\<close> is \<open>joinpath\<close>: an absolute
  \<open>s\<close> replaces \<open>p\<close>. The components \<^verbatim>\<open>'..'\<close> and symbolic links are resolved by the
  operating system and are not interpreted here.
\<close>

fun split_slash :: "string \<Rightarrow> string list" where
  "split_slash [] = [[]]"
| "split_slash (c # cs) =
     (if c = CHR ''/'' then [] # split_slash cs
      else (case split_slash cs of [] \<Rightarrow> [[c]] | p # ps \<Rightarrow> (c # p) # ps))"

definition PurePath :: "string \<Rightarrow> path" where
  "PurePath s = Path (s \<noteq> [] \<and> hd s = CHR ''/'')
                     (filter (\<lambda>p. p \<noteq> [] \<and> p \<noteq> ''.'') (split_slash s))"

definition joinpath :: "path \<Rightarrow> string \<Rightarrow> path" where
  "joinpath p s = (let q = PurePath s in
     if is_abs q then q else Path (is_abs p) (parts p @ parts q))"

fun intercalate :: "string \<Rightarrow> string list \<Rightarrow> string" where
  "intercalate sep [] = []"
| "intercalate sep [x] = x"
| "intercalate sep (x # y # ys) = x @ sep @ intercalate sep (y # ys)"

definition path_str :: "path \<Rightarrow> string" where
  "path_str p = (if is_abs p then ''/'' @ intercalate ''/'' (parts p)
                 else if parts p = [] then ''.'' else intercalate ''/'' (parts p))"

definition path_name :: "path \<Rightarrow> string" where
  "path_name p = (if parts p = [] then [] else last (parts p))"

definition path_parent :: "path \<Rightarrow> path" where
  "path_parent p = Path (is_abs p) (butlast (parts p))"

text \<open>
  The file system is a table from paths to nodes. The calls of the module are embedded
  with the errors they raise on the node found at the path itself; that every ancestor of
  a path is a directory is not tracked.
\<close>

datatype node = File bytes | Dir

record request =
  http_method :: string
  url :: string
  headers :: "(string \<times> string) list"
  files :: "(string \<times> string option \<times> bytes) list"
  form :: "(string \<times> bytes) list"
  json_body :: "json option"
  timeout :: nat
  follow_redirects :: bool

record response =
  status_code :: nat
  content :: bytes

record world =
  fs :: "path \<Rightarrow> node option"
  sent :: "request list"

type_synonym net = "request \<Rightarrow> exn + response"

definition path_exists :: "world \<Rightarrow> path \<Rightarrow> bool" where
  "path_exists w p = (fs w p \<noteq> None)"

text \<open>\<^verbatim>\<open>p.mkdir(parents=True, exist_ok=True)\<close>.\<close>

definition mkdir :: "path \<Rightarrow> world \<Rightarrow> exn + world" where
  "mkdir p w = (case fs w p of
      Some (File b) \<Rightarrow> Inl FileExistsError
    | _ \<Rightarrow> Inr (w\<lparr>fs := (fs w)(p \<mapsto> Dir)\<rparr>))"

text \<open>\<^verbatim>\<open>open(p, 'rb')\<close> (and \<^verbatim>\<open>'r'\<close>): the file must exist and be a regular file.\<close>

definition open_read :: "path \<Rightarrow> world \<Rightarrow> exn + unit" where
  "open_read p w = (case fs w p of
      None \<Rightarrow> Inl FileNotFoundError
    | Some Dir \<Rightarrow> Inl IsADirectoryError
    | Some (File b) \<Rightarrow> Inr ())"

text \<open>\<^verbatim>\<open>f.read()\<close> on a handle opened for reading: the bytes the file holds at that moment.\<close>

definition read_handle :: "path \<Rightarrow> world \<Rightarrow> bytes" where
  "read_handle p w = (case fs w p of Some (File b) \<Rightarrow> b | _ \<Rightarrow> [])"

text \<open>\<^verbatim>\<open>with open(p, 'rb') as f: data = f.read()\<close>.\<close>

definition read_file :: "path \<Rightarrow> world \<Rightarrow> exn + bytes" where
  "read_file p w = (case open_read p w of Inl e \<Rightarrow> Inl e | Inr u \<Rightarrow> Inr (read_handle p w))"

text \<open>\<^verbatim>\<open>open(p, 'wb')\<close> (and \<^verbatim>\<open>'w'\<close>): the file is created or truncated to length zero.\<close>

definition open_write :: "path \<Rightarrow> world \<Rightarrow> exn + world" where
  "open_write p w = (case fs w p of
      Some Dir \<Rightarrow> Inl IsADirectoryError
    | _ \<Rightarrow> Inr (w\<lparr>fs := (fs w)(p \<mapsto> File [])\<rparr>))"

text \<open>\<^verbatim>\<open>f.write(b)\<close> on a handle opened for writing, followed by the close of the \<^verbatim>\<open>with\<close> block.\<close>

definition write_handle :: "path \<Rightarrow> bytes \<Rightarrow> world \<Rightarrow> world" where
  "write_handle p b w = w\<lparr>fs := (fs w)(p \<mapsto> File b)\<rparr>"

text \<open>\<^verbatim>\<open>with open(p, 'wb') as f: f.write(b)\<close>.\<close>

definition write_file :: "path \<Rightarrow> bytes \<Rightarrow> world \<Rightarrow> exn + world" where
  "write_file p b w = (case open_write p w of Inl e \<Rightarrow> Inl e | Inr w1 \<Rightarrow> Inr (write_handle p b w1))"

text \<open>\<^verbatim>\<open>os.unlink(p)\<close>.\<close>

definition unlink :: "path \<Rightarrow> world \<Rightarrow> exn + world" where
  "unlink p w = (case fs w p of
      None \<Rightarrow> Inl FileNotFoundError
    | Some Dir \<Rightarrow> Inl IsADirectoryError
    | Some (File b) \<Rightarrow> Inr (w\<lparr>fs := (fs w)(p := None)\<rparr>))"

subsection \<open>\<^verbatim>\<open>MockIPFSClient\<close>\<close>

text \<open>The object: \<^verbatim>\<open>self.storage_dir\<close> and \<^verbatim>\<open>self.metadata\<close>. \<^verbatim>\<open>self.metadata_file\<close> is set once
  by the constructor to \<^verbatim>\<open>self.storage_dir / "metadata.json"\<close> and never assigned again.\<close>

record mock =
  storage_dir :: path
  metadata :: json

definition metadata_file :: "mock \<Rightarrow> path" where
  "metadata_file m = joinpath (storage_dir m) ''metadata.json''"



definition save_metadata :: "pylib \<Rightarrow> mock \<Rightarrow> world \<Rightarrow> exn + world" where
  "save_metadata L m w = write_file (metadata_file m) (json_dumps_indent L (metadata m)) w"

definition hex_alphabet :: string where
  "hex_alphabet = ''0123456789abcdef''"

definition hex_digit :: "nat \<Rightarrow> char" where
  "hex_digit n = hex_alphabet ! n"

definition hex_byte :: "byte \<Rightarrow> string" where
  "hex_byte b = [hex_digit (unat b div 16), hex_digit (unat b mod 16)]"

text \<open>\<^verbatim>\<open>hashlib.sha256(data).hexdigest()\<close>: the digest in lower-case hexadecimal.\<close>

definition hexdigest :: "pylib \<Rightarrow> bytes \<Rightarrow> string" where
  "hexdigest L d = concat (map hex_byte (sha256 L d))"

definition compute_hash :: "pylib \<Rightarrow> bytes \<Rightarrow> string" where
  "compute_hash L d = ''Qm'' @ take 44 (hexdigest L d)"

definition meta_entry :: "string \<Rightarrow> nat \<Rightarrow> string \<Rightarrow> json" where
  "meta_entry name n kind =
     JObj [(''name'', JStr name), (''size'', JInt (int n)), (''type'', JStr kind)]"

text \<open>The common tail of both uploads: store the blob under the CID, record it in
  \<^verbatim>\<open>self.metadata\<close>, save the index, return the CID.\<close>

definition store_blob ::
  "pylib \<Rightarrow> mock \<Rightarrow> bytes \<Rightarrow> string \<Rightarrow> string \<Rightarrow> world \<Rightarrow> (exn + string option) \<times> mock \<times> world" where
  "store_blob L m d name kind w =
     (let cid = compute_hash L d in
      case write_file (joinpath (storage_dir m) cid) d w of
        Inl e \<Rightarrow> (Inl e, m, w)
      | Inr w1 \<Rightarrow>
          (case py_setitem (metadata m) cid (meta_entry name (length d) kind) of
             Inl e \<Rightarrow> (Inl e, m, w1)
           | Inr md \<Rightarrow>
               (let m1 = m\<lparr>metadata := md\<rparr> in
                case save_metadata L m1 w1 of
                  Inl e \<Rightarrow> (Inl e, m1, w1)
                | Inr w2 \<Rightarrow> (Inr (Some cid), m1, w2))))"

definition MockIPFSClient_upload_file ::
  "pylib \<Rightarrow> mock \<Rightarrow> path \<Rightarrow> string option \<Rightarrow> world \<Rightarrow> (exn + string option) \<times> mock \<times> world" where
  "MockIPFSClient_upload_file L m file_path name w =
     (if \<not> path_exists w file_path then (Inr None, m, w)
      else (case read_file file_path w of
              Inl e \<Rightarrow> (Inl e, m, w)
            | Inr d \<Rightarrow> store_blob L m d (py_or name (path_name file_path)) ''file'' w))"


definition MockIPFSClient_download_file ::
  "mock \<Rightarrow> string \<Rightarrow> path \<Rightarrow> world \<Rightarrow> (exn + bool) \<times> world" where
  "MockIPFSClient_download_file m cid output_path w =
     (let stored_path = joinpath (storage_dir m) (clean_cid cid) in
      if \<not> path_exists w stored_path then (Inr False, w)
      else (case mkdir (path_parent output_path) w of
              Inl e \<Rightarrow> (Inl e, w)
            | Inr w1 \<Rightarrow>
                (case open_read stored_path w1 of
                   Inl e \<Rightarrow> (Inl e, w1)
                 | Inr u \<Rightarrow>
                     (case open_write output_path w1 of
                        Inl e \<Rightarrow> (Inl e, w1)
                      | Inr w2 \<Rightarrow>
                          (Inr True, write_handle output_path (read_handle stored_path w2) w2)))))"

definition MockIPFSClient_download_json ::
  "pylib \<Rightarrow> mock \<Rightarrow> string \<Rightarrow> world \<Rightarrow> (exn + json option) \<times> world" where
  "MockIPFSClient_download_json L m cid w =
     (let stored_path = joinpath (storage_dir m) (clean_cid cid) in
      if \<not> path_exists w stored_path then (Inr None, w)
      else (case read_file stored_path w of
              Inl e \<Rightarrow> (Inl e, w)
            | Inr b \<Rightarrow>
                (case json_loads L b of
                   Inl e \<Rightarrow> (Inl e, w)
                 | Inr j \<Rightarrow> (Inr (Some j), w))))"

definition MockIPFSClient_get_gateway_url :: "mock \<Rightarrow> string \<Rightarrow> string" where
  "MockIPFSClient_get_gateway_url m cid = ''file://'' @ path_str (storage_dir m) @ ''/'' @ cid"


subsection \<open>\<^verbatim>\<open>IPFSClient\<close>\<close>

text \<open>The process environment after \<^verbatim>\<open>load_dotenv()\<close>; \<^verbatim>\<open>os.getenv(k)\<close> is \<open>env k\<close>.\<close>

type_synonym environ = "string \<Rightarrow> string option"

definition getenv_default :: "environ \<Rightarrow> string \<Rightarrow> string \<Rightarrow> string" where
  "getenv_default env k d = (case env k of Some v \<Rightarrow> v | None \<Rightarrow> d)"

text \<open>The object. The constructor sets the Pinata attributes or the local ones, by
  \<^verbatim>\<open>use_pinata\<close>; the attributes of the other branch do not exist in Python and are never
  read on that branch: here they hold \<open>None\<close> or the empty string.\<close>

record ipfs_client =
  use_pinata :: bool
  pinata_jwt :: "string option"
  pinata_api_key :: "string option"
  pinata_secret :: "string option"
  pinata_gateway :: string
  base_url :: string
  ipfs_api_url :: string
  ipfs_gateway :: string

definition IPFSClient_init :: "environ \<Rightarrow> bool \<Rightarrow> ipfs_client" where
  "IPFSClient_init env up =
     (if up then
        \<lparr>use_pinata = True,
         pinata_jwt = env ''PINATA_JWT'',
         pinata_api_key = env ''PINATA_API_KEY'',
         pinata_secret = env ''PINATA_SECRET_KEY'',
         pinata_gateway = getenv_default env ''PINATA_GATEWAY'' ''https://gateway.pinata.cloud'',
         base_url = ''https://api.pinata.cloud'',
         ipfs_api_url = [],
         ipfs_gateway = []\<rparr>
      else
        \<lparr>use_pinata = False,
         pinata_jwt = None,
         pinata_api_key = None,
         pinata_secret = None,
         pinata_gateway = [],
         base_url = [],
         ipfs_api_url = getenv_default env ''IPFS_API_URL'' ''http://localhost:5001'',
         ipfs_gateway = getenv_default env ''IPFS_GATEWAY'' ''http://localhost:8080''\<rparr>)"

definition get_headers :: "ipfs_client \<Rightarrow> (string \<times> string) list" where
  "get_headers c =
     (if truthy (pinata_jwt c) then [(''Authorization'', ''Bearer '' @ the (pinata_jwt c))]
      else if truthy (pinata_api_key c) \<and> truthy (pinata_secret c)
      then [(''pinata_api_key'', the (pinata_api_key c)),
            (''pinata_secret_api_key'', the (pinata_secret c))]
      else [])"

text \<open>One request through \<^verbatim>\<open>httpx.Client(timeout=...)\<close>: the request is logged, the service
  answers with a response or the transport raises.\<close>

definition http_request :: "net \<Rightarrow> request \<Rightarrow> world \<Rightarrow> (exn + response) \<times> world" where
  "http_request nw rq w = (nw rq, w\<lparr>sent := sent w @ [rq]\<rparr>)"

text \<open>\<^verbatim>\<open>try: ... except Exception: return d\<close> around a computation.\<close>

definition except_return :: "'a \<Rightarrow> (exn + 'a) \<times> world \<Rightarrow> (exn + 'a) \<times> world" where
  "except_return d r = (case fst r of Inl e \<Rightarrow> (Inr d, snd r) | Inr v \<Rightarrow> r)"

text \<open>The tail of the three uploads: on status 200 the CID is read from the JSON body
  under \<open>key\<close>, any other status gives \<^verbatim>\<open>None\<close>.\<close>

definition cid_of_response :: "pylib \<Rightarrow> string \<Rightarrow> response \<Rightarrow> exn + json option" where
  "cid_of_response L key resp =
     (if status_code resp = 200
      then (case json_loads L (content resp) of
              Inl e \<Rightarrow> Inl e
            | Inr result \<Rightarrow>
                (case py_getitem result key of Inl e \<Rightarrow> Inl e | Inr cid \<Rightarrow> Inr (Some cid)))
      else Inr None)"

definition upload_to_pinata ::
  "pylib \<Rightarrow> net \<Rightarrow> ipfs_client \<Rightarrow> path \<Rightarrow> string \<Rightarrow> world \<Rightarrow> (exn + json option) \<times> world" where
  "upload_to_pinata L nw c file_path name w =
     (case read_file file_path w of
        Inl e \<Rightarrow> (Inl e, w)
      | Inr d \<Rightarrow>
          (let rq = \<lparr>http_method = ''POST'',
                     url = base_url c @ ''/pinning/pinFileToIPFS'',
                     headers = get_headers c,
                     files = [(''file'', Some name, d)],
                     form = [(''pinataMetadata'', json_dumps L (JObj [(''name'', JStr name)]))],
                     json_body = None,
                     timeout = 120,
                     follow_redirects = False\<rparr>;
               r = http_request nw rq w
           in case fst r of
                Inl e \<Rightarrow> (Inl e, snd r)
              | Inr resp \<Rightarrow> (cid_of_response L ''IpfsHash'' resp, snd r)))"

definition upload_to_local_ipfs ::
  "pylib \<Rightarrow> net \<Rightarrow> ipfs_client \<Rightarrow> path \<Rightarrow> world \<Rightarrow> (exn + json option) \<times> world" where
  "upload_to_local_ipfs L nw c file_path w =
     (case read_file file_path w of
        Inl e \<Rightarrow> (Inl e, w)
      | Inr d \<Rightarrow>
          (let rq = \<lparr>http_method = ''POST'',
                     url = ipfs_api_url c @ ''/api/v0/add'',
                     headers = [],
                     files = [(''file'', None, d)],
                     form = [],
                     json_body = None,
                     timeout = 120,
                     follow_redirects = False\<rparr>;
               r = http_request nw rq w
           in case fst r of
                Inl e \<Rightarrow> (Inl e, snd r)
              | Inr resp \<Rightarrow> (cid_of_response L ''Hash'' resp, snd r)))"

definition IPFSClient_upload_file ::
  "pylib \<Rightarrow> net \<Rightarrow> ipfs_client \<Rightarrow> path \<Rightarrow> string option \<Rightarrow> world \<Rightarrow> (exn + json option) \<times> world" where
  "IPFSClient_upload_file L nw c file_path name w =
     (if \<not> path_exists w file_path then (Inr None, w)
      else except_return None
             (if use_pinata c
              then upload_to_pinata L nw c file_path (py_or name (path_name file_path)) w
              else upload_to_local_ipfs L nw c file_path w))"

definition upload_json_to_pinata ::
  "pylib \<Rightarrow> net \<Rightarrow> ipfs_client \<Rightarrow> json \<Rightarrow> string \<Rightarrow> world \<Rightarrow> (exn + json option) \<times> world" where
  "upload_json_to_pinata L nw c doc name w =
     (let rq = \<lparr>http_method = ''POST'',
                url = base_url c @ ''/pinning/pinJSONToIPFS'',
                headers = get_headers c @ [(''Content-Type'', ''application/json'')],
                files = [],
                form = [],
                json_body = Some (JObj [(''pinataContent'', doc),
                                        (''pinataMetadata'', JObj [(''name'', JStr name)])]),
                timeout = 60,
                follow_redirects = False\<rparr>;
          r = http_request nw rq w
      in case fst r of
           Inl e \<Rightarrow> (Inl e, snd r)
         | Inr resp \<Rightarrow> (cid_of_response L ''IpfsHash'' resp, snd r))"

text \<open>On the local node the document goes through a temporary file and the file upload: the
  file is written, uploaded and then unlinked (an exception of the upload skips the unlink).
  \<^verbatim>\<open>NamedTemporaryFile\<close> always creates its file, under the name \<open>tempname L\<close>.\<close>

definition IPFSClient_upload_json ::
  "pylib \<Rightarrow> net \<Rightarrow> ipfs_client \<Rightarrow> json \<Rightarrow> string \<Rightarrow> world \<Rightarrow> (exn + json option) \<times> world" where
  "IPFSClient_upload_json L nw c doc name w =
     except_return None
       (if use_pinata c then upload_json_to_pinata L nw c doc name w
        else (let w1 = write_handle (tempname L) (json_dumps L doc) w;
                  r = upload_to_local_ipfs L nw c (tempname L) w1
              in case fst r of
                   Inl e \<Rightarrow> (Inl e, snd r)
                 | Inr result \<Rightarrow>
                     (case unlink (tempname L) (snd r) of
                        Inl e \<Rightarrow> (Inl e, snd r)
                      | Inr w3 \<Rightarrow> (Inr result, w3))))"

definition gateway_of :: "ipfs_client \<Rightarrow> string" where
  "gateway_of c = (if use_pinata c then pinata_gateway c else ipfs_gateway c)"

definition get_request :: "string \<Rightarrow> nat \<Rightarrow> request" where
  "get_request u t =
     \<lparr>http_method = ''GET'', url = u, headers = [], files = [], form = [],
      json_body = None, timeout = t, follow_redirects = True\<rparr>"

definition IPFSClient_download_file ::
  "net \<Rightarrow> ipfs_client \<Rightarrow> string \<Rightarrow> path \<Rightarrow> world \<Rightarrow> (exn + bool) \<times> world" where
  "IPFSClient_download_file nw c cid output_path w =
     (case mkdir (path_parent output_path) w of
        Inl e \<Rightarrow> (Inl e, w)
      | Inr w1 \<Rightarrow>
          except_return False
            (let r = http_request nw (get_request (gateway_of c @ ''/ipfs/'' @ clean_cid cid) 120) w1
             in case fst r of
                  Inl e \<Rightarrow> (Inl e, snd r)
                | Inr resp \<Rightarrow>
                    (if status_code resp = 200
                     then (case write_file output_path (content resp) (snd r) of
                             Inl e \<Rightarrow> (Inl e, snd r)
                           | Inr w3 \<Rightarrow> (Inr True, w3))
                     else (Inr False, snd r))))"

definition IPFSClient_download_json ::
  "pylib \<Rightarrow> net \<Rightarrow> ipfs_client \<Rightarrow> string \<Rightarrow> world \<Rightarrow> (exn + json option) \<times> world" where
  "IPFSClient_download_json L nw c cid w =
     except_return None
       (let r = http_request nw (get_request (gateway_of c @ ''/ipfs/'' @ clean_cid cid) 60) w
        in case fst r of
             Inl e \<Rightarrow> (Inl e, snd r)
           | Inr resp \<Rightarrow>
               (if status_code resp = 200
                then (case json_loads L (content resp) of
                        Inl e \<Rightarrow> (Inl e, snd r)
                      | Inr j \<Rightarrow> (Inr (Some j), snd r))
                else (Inr None, snd r)))"

text \<open>\<^verbatim>\<open>pin_cid\<close> has no \<^verbatim>\<open>try\<close>: what the transport raises leaves the method.\<close>

definition pin_request :: "ipfs_client \<Rightarrow> string \<Rightarrow> string option \<Rightarrow> request" where
  "pin_request c cid name =
     (if \<not> use_pinata c then
        \<lparr>http_method = ''POST'',
         url = ipfs_api_url c @ ''/api/v0/pin/add?arg='' @ cid,
         headers = [], files = [], form = [], json_body = None,
         timeout = 60, follow_redirects = False\<rparr>
      else
        \<lparr>http_method = ''POST'',
         url = base_url c @ ''/pinning/pinByHash'',
         headers = get_headers c @ [(''Content-Type'', ''application/json'')],
         files = [], form = [],
         json_body = Some (JObj ((''hashToPin'', JStr cid) #
                                 (if truthy name
                                  then [(''pinataMetadata'', JObj [(''name'', JStr (the name))])]
                                  else []))),
         timeout = 60, follow_redirects = False\<rparr>)"

definition IPFSClient_pin_cid ::
  "net \<Rightarrow> ipfs_client \<Rightarrow> string \<Rightarrow> string option \<Rightarrow> world \<Rightarrow> (exn + bool) \<times> world" where
  "IPFSClient_pin_cid nw c cid name w =
     (let r = http_request nw (pin_request c cid name) w
      in case fst r of
           Inl e \<Rightarrow> (Inl e, snd r)
         | Inr resp \<Rightarrow> (Inr (status_code resp = 200), snd r))"

definition IPFSClient_get_gateway_url :: "ipfs_client \<Rightarrow> string \<Rightarrow> string" where
  "IPFSClient_get_gateway_url c cid = gateway_of c @ ''/ipfs/'' @ clean_cid cid"

definition probe_request :: "ipfs_client \<Rightarrow> request" where
  "probe_request c =
     (if use_pinata c then
        \<lparr>http_method = ''GET'',
         url = base_url c @ ''/data/testAuthentication'',
         headers = get_headers c, files = [], form = [], json_body = None,
         timeout = 10, follow_redirects = False\<rparr>
      else
        \<lparr>http_method = ''POST'',
         url = ipfs_api_url c @ ''/api/v0/id'',
         headers = [], files = [], form = [], json_body = None,
         timeout = 10, follow_redirects = False\<rparr>)"

definition IPFSClient_test_connection :: "net \<Rightarrow> ipfs_client \<Rightarrow> world \<Rightarrow> (exn + bool) \<times> world" where
  "IPFSClient_test_connection nw c w =
     except_return False
       (let r = http_request nw (probe_request c) w
        in case fst r of
             Inl e \<Rightarrow> (Inl e, snd r)
           | Inr resp \<Rightarrow> (Inr (status_code resp = 200), snd r))"

subsection \<open>The factory \<^verbatim>\<open>get_ipfs_client\<close>\<close>









subsection \<open>Predicates used to state the properties\<close>

text \<open>The shape of a CID that \<open>compute_hash\<close> builds: \<^verbatim>\<open>Qm\<close> followed by lower-case
  hexadecimal digits.\<close>

definition is_mock_cid :: "string \<Rightarrow> bool" where
  "is_mock_cid c = (take 2 c = ''Qm'' \<and> list_all (\<lambda>x. x \<in> set hex_alphabet) (drop 2 c))"

text \<open>The path \<^verbatim>\<open>self.storage_dir / cid\<close> under which a blob is stored.\<close>

definition blob_path :: "mock \<Rightarrow> string \<Rightarrow> path" where
  "blob_path m cid = joinpath (storage_dir m) cid"



text \<open>The requests an operation added to the log.\<close>

definition new_requests :: "world \<Rightarrow> world \<Rightarrow> request list" where
  "new_requests w w' = drop (length (sent w)) (sent w')"


text \<open>The service answers the probe of a client with status 200.\<close>

definition probe_ok :: "net \<Rightarrow> ipfs_client \<Rightarrow> bool" where
  "probe_ok nw c = (case nw (probe_request c) of Inl e \<Rightarrow> False | Inr resp \<Rightarrow> status_code resp = 200)"

subsection \<open>Concrete states used by the examples\<close>

text \<open>An empty file system with nothing sent yet, and a mock object over \<^verbatim>\<open>./ipfs_mock\<close> with
  an empty index, as \<^verbatim>\<open>MockIPFSClient()\<close> builds it in a fresh directory.\<close>

definition world0 :: world where
  "world0 = \<lparr>fs = Map.empty, sent = []\<rparr>"

definition mock0 :: mock where
  "mock0 = \<lparr>storage_dir = Path False [''ipfs_mock''], metadata = JObj []\<rparr>"

text \<open>A world with one job file and the mock's directory, the upload of that file and of
  a JSON document through a fresh mock, and an output path outside the store.\<close>

definition file1 :: path where
  "file1 = Path False [''job'', ''weights.bin'']"

definition payload1 :: bytes where
  "payload1 = [1, 2, 3]"

definition world1 :: world where
  "world1 = \<lparr>fs = [file1 \<mapsto> File payload1, Path False [''ipfs_mock''] \<mapsto> Dir], sent = []\<rparr>"

definition out1 :: path where
  "out1 = Path False [''out'', ''weights.bin'']"

definition doc1 :: json where
  "doc1 = JObj [(''model'', JStr ''test''), (''accuracy'', JFloat 95 (- 2))]"

definition uploaded1 :: "pylib \<Rightarrow> (exn + string option) \<times> mock \<times> world" where
  "uploaded1 L = MockIPFSClient_upload_file L mock0 file1 None world1"



definition net_down :: net where
  "net_down rq = Inl ConnectError"

definition local_client :: ipfs_client where
  "local_client = IPFSClient_init Map.empty False"

definition pinata_client :: ipfs_client where
  "pinata_client = IPFSClient_init Map.empty True"

section \<open>Properties\<close>

subsection \<open>Uploading a file that does not exist\<close>



subsection \<open>Facts about the string functions\<close>


lemma startswith_length: "startswith s p \<Longrightarrow> length p \<le> length s"
proof -
  assume "startswith s p"
  then have "length (take (length p) s) = length p" by (simp add: startswith_def)
  then show ?thesis by (simp add: min_def split: if_splits)
qed

lemma drop_append_le: "n \<le> length ys \<Longrightarrow> drop n (ys @ zs) = drop n ys @ zs"
  by simp


lemma py_replace_prefix:
  "old \<noteq> [] \<Longrightarrow> py_replace old new (old @ s) = new @ py_replace old new s"
  by (cases old) (simp_all add: startswith_def)

lemma startswith_snoc:
  assumes "c \<notin> set old"
  shows "startswith (xs @ [c]) old = startswith xs old"
proof (cases "length old \<le> length xs")
  case True
  then show ?thesis by (simp add: startswith_def)
next
  case False
  then have a: "\<not> startswith xs old"
    using startswith_length by blast
  have "\<not> startswith (xs @ [c]) old"
  proof
    assume h: "startswith (xs @ [c]) old"
    from False have "length xs < length old" by simp
    with h have "old = xs @ [c]"
      unfolding startswith_def by (metis Suc_leI length_append_singleton take_all_iff)
    with assms show False by simp
  qed
  with a show ?thesis by simp
qed

lemma py_replace_snoc:
  assumes "c \<notin> set old"
  shows "py_replace old new (s @ [c]) = py_replace old new s @ [c]"
  using assms
proof (induction old new s rule: py_replace.induct)
  case (1 old new)
  then have "\<not> startswith [c] old \<or> old = []"
    unfolding startswith_def by (cases old) auto
  then show ?case by auto
next
  case (2 old new x xs)
  show ?case
  proof (cases "old \<noteq> [] \<and> startswith (x # xs) old")
    case True
    then have le: "length old \<le> length (x # xs)"
      using startswith_length by blast
    have s: "startswith ((x # xs) @ [c]) old"
      using True startswith_snoc [OF 2(3), of "x # xs"] by simp
    have d: "drop (length old) ((x # xs) @ [c]) = drop (length old) (x # xs) @ [c]"
      using le by (rule drop_append_le)
    from True s d 2(1) [OF True 2(3)] show ?thesis by simp
  next
    case False
    then have s: "\<not> (old \<noteq> [] \<and> startswith ((x # xs) @ [c]) old)"
      using startswith_snoc [OF 2(3), of "x # xs"] by simp
    from False s 2(2) [OF False 2(3)] show ?thesis by auto
  qed
qed

lemma py_replace_cons:
  assumes "c \<notin> set old"
  shows "py_replace old new (c # s) = c # py_replace old new s"
  using assms by (cases old) (auto simp: startswith_def)

lemma py_strip_pad:
  assumes "is_space a" "is_space b"
  shows "py_strip (a # s @ [b]) = py_strip s"
proof (cases "dropWhile is_space s = []")
  case True
  then have "\<forall>x\<in>set s. is_space x" by (metis dropWhile_eq_Nil_conv)
  then have "\<forall>x\<in>set (s @ [b]). is_space x"
    using assms by simp
  then have "dropWhile is_space (s @ [b]) = []"
    by (simp only: dropWhile_eq_Nil_conv)
  then have l: "dropWhile is_space (a # s @ [b]) = []"
    using assms by simp
  show ?thesis unfolding py_strip_def l True by simp
next
  case False
  then obtain x where x: "x \<in> set s" "\<not> is_space x" by (auto simp: dropWhile_eq_Nil_conv)
  then have "dropWhile is_space (s @ [b]) = dropWhile is_space s @ [b]"
    by (simp add: dropWhile_append1)
  with assms show ?thesis by (simp add: py_strip_def)
qed


lemma clean_cid_forms:
  "clean_cid (''ipfs://'' @ x) = clean_cid x"
  "clean_cid ('' '' @ x @ '' '') = clean_cid x"
proof -
  show "clean_cid (''ipfs://'' @ x) = clean_cid x"
    using py_replace_prefix [of "''ipfs://''" "[]" x] by (simp add: clean_cid_def)
  have sp: "CHR '' '' \<notin> set ''ipfs://''" by simp
  have "py_replace ''ipfs://'' [] ('' '' @ x @ '' '') = CHR '' '' # py_replace ''ipfs://'' [] x @ [CHR '' '']"
    using py_replace_cons [OF sp, of "[]" "x @ '' ''"] py_replace_snoc [OF sp, of "[]" x] by simp
  moreover have "is_space CHR '' ''" by (simp add: is_space_def)
  ultimately show "clean_cid ('' '' @ x @ '' '') = clean_cid x"
    by (simp add: clean_cid_def py_strip_pad)
qed

subsection \<open>Facts about mock CIDs and paths\<close>

lemma hex_digit_mem: "n < 16 \<Longrightarrow> hex_digit n \<in> set hex_alphabet"
proof -
  assume "n < 16"
  then have "n < length hex_alphabet" by (simp add: hex_alphabet_def)
  then have "hex_alphabet ! n \<in> set hex_alphabet" by (rule nth_mem)
  then show ?thesis by (simp add: hex_digit_def)
qed

lemma hex_byte_chars: "set (hex_byte b) \<subseteq> set hex_alphabet"
proof -
  have "unat b < 2 ^ LENGTH(8)" by (rule unsigned_less)
  then have "unat b < 256" by simp
  then have "unat b div 16 < 16" "unat b mod 16 < 16" by auto
  then show ?thesis
    using hex_digit_mem [of "unat b div 16"] hex_digit_mem [of "unat b mod 16"]
    by (simp add: hex_byte_def)
qed

lemma hexdigest_chars: "set (hexdigest L d) \<subseteq> set hex_alphabet"
  unfolding hexdigest_def using hex_byte_chars by fastforce

lemma compute_hash_shape: "is_mock_cid (compute_hash L d)"
proof -
  have "set (take 44 (hexdigest L d)) \<subseteq> set hex_alphabet"
    using hexdigest_chars [of L d] set_take_subset [of 44 "hexdigest L d"] by blast
  then have "list_all (\<lambda>x. x \<in> set hex_alphabet) (take 44 (hexdigest L d))"
    unfolding list_all_iff by blast
  then show ?thesis
    by (simp add: is_mock_cid_def compute_hash_def)
qed

lemma mock_cid_cases:
  assumes "is_mock_cid c" "x \<in> set c"
  shows "x = CHR ''Q'' \<or> x = CHR ''m'' \<or> x \<in> set hex_alphabet"
proof -
  from assms(1) have t: "take 2 c = ''Qm''" and h: "\<forall>y\<in>set (drop 2 c). y \<in> set hex_alphabet"
    unfolding is_mock_cid_def list_all_iff by blast+
  have "set c = set (take 2 c) \<union> set (drop 2 c)" by (metis append_take_drop_id set_append)
  with assms(2) have "x \<in> set (take 2 c) \<or> x \<in> set (drop 2 c)" by blast
  then show ?thesis
  proof
    assume "x \<in> set (take 2 c)"
    with t show ?thesis by auto
  next
    assume "x \<in> set (drop 2 c)"
    with h show ?thesis by blast
  qed
qed

lemma mock_cid_nonempty: "is_mock_cid c \<Longrightarrow> c \<noteq> []"
  unfolding is_mock_cid_def by auto

lemma mock_cid_hd: "is_mock_cid c \<Longrightarrow> hd c = CHR ''Q''"
  unfolding is_mock_cid_def by (cases c) auto

lemma mock_cid_no_slash: "is_mock_cid c \<Longrightarrow> CHR ''/'' \<notin> set c"
proof
  assume a: "is_mock_cid c" and b: "CHR ''/'' \<in> set c"
  have "CHR ''/'' \<notin> set hex_alphabet" by (simp add: hex_alphabet_def)
  with mock_cid_cases [OF a b] show False by simp
qed



lemma split_slash_plain: "CHR ''/'' \<notin> set s \<Longrightarrow> split_slash s = [s]"
  by (induction s) auto

lemma PurePath_plain:
  assumes "CHR ''/'' \<notin> set s" "s \<noteq> []" "s \<noteq> ''.''"
  shows "PurePath s = Path False [s]"
proof -
  from assms(1,2) have "hd s \<noteq> CHR ''/''" by (cases s) auto
  with assms show ?thesis by (simp add: PurePath_def split_slash_plain)
qed

lemma PurePath_cid: "is_mock_cid c \<Longrightarrow> PurePath c = Path False [c]"
proof -
  assume a: "is_mock_cid c"
  have "c \<noteq> ''.''" using mock_cid_hd [OF a] by auto
  with mock_cid_no_slash [OF a] mock_cid_nonempty [OF a] show ?thesis
    by (simp add: PurePath_plain)
qed

lemma joinpath_cid: "is_mock_cid c \<Longrightarrow> joinpath p c = Path (is_abs p) (parts p @ [c])"
  by (simp add: joinpath_def PurePath_cid)

lemma joinpath_metadata: "joinpath p ''metadata.json'' = Path (is_abs p) (parts p @ [''metadata.json''])"
  by (simp add: joinpath_def PurePath_def)

lemma mock_cid_not_metadata: "is_mock_cid c \<Longrightarrow> c \<noteq> ''metadata.json''"
  by (auto simp: is_mock_cid_def)


lemma blob_path_not_metadata: "is_mock_cid c \<Longrightarrow> blob_path m c \<noteq> metadata_file m"
  by (simp add: blob_path_def metadata_file_def joinpath_cid joinpath_metadata mock_cid_not_metadata)



subsection \<open>The mock store\<close>

lemma write_file_eq:
  "write_file p b w = (if fs w p = Some Dir then Inl IsADirectoryError
                       else Inr (w\<lparr>fs := (fs w)(p \<mapsto> File b)\<rparr>))"
  by (auto simp: write_file_def open_write_def write_handle_def split: option.splits node.splits)

lemma read_file_eq:
  "read_file p w = (case fs w p of None \<Rightarrow> Inl FileNotFoundError
                    | Some Dir \<Rightarrow> Inl IsADirectoryError | Some (File b) \<Rightarrow> Inr b)"
  by (auto simp: read_file_def open_read_def read_handle_def split: option.splits node.splits)

lemma py_setitem_eq:
  "py_setitem j k v = (case j of JObj kvs \<Rightarrow> Inr (JObj (dict_set k v kvs)) | _ \<Rightarrow> Inl TypeError)"
  by (cases j) auto

lemma store_blob_eq:
  "store_blob L m d name kind w =
    (if fs w (blob_path m (compute_hash L d)) = Some Dir then (Inl IsADirectoryError, m, w)
     else (case metadata m of
        JObj kvs \<Rightarrow>
          (if fs w (metadata_file m) = Some Dir
           then (Inl IsADirectoryError,
                 m\<lparr>metadata := JObj (dict_set (compute_hash L d) (meta_entry name (length d) kind) kvs)\<rparr>,
                 w\<lparr>fs := (fs w)(blob_path m (compute_hash L d) \<mapsto> File d)\<rparr>)
           else (Inr (Some (compute_hash L d)),
                 m\<lparr>metadata := JObj (dict_set (compute_hash L d) (meta_entry name (length d) kind) kvs)\<rparr>,
                 w\<lparr>fs := (fs w)(blob_path m (compute_hash L d) \<mapsto> File d,
                              metadata_file m \<mapsto> File (json_dumps_indent L
                                (JObj (dict_set (compute_hash L d) (meta_entry name (length d) kind) kvs))))\<rparr>))
      | _ \<Rightarrow> (Inl TypeError, m, w\<lparr>fs := (fs w)(blob_path m (compute_hash L d) \<mapsto> File d)\<rparr>)))"
proof -
  have ne: "blob_path m (compute_hash L d) \<noteq> metadata_file m"
    by (rule blob_path_not_metadata) (rule compute_hash_shape)
  have mf: "metadata_file (m\<lparr>metadata := x\<rparr>) = metadata_file m" for x
    by (simp add: metadata_file_def)
  show ?thesis
    using ne
    by (cases "metadata m")
       (auto simp: store_blob_def Let_def write_file_eq py_setitem_eq save_metadata_def mf
                   blob_path_def)
qed

lemma upload_file_eq:
  "fs w p = Some (File P) \<Longrightarrow>
   MockIPFSClient_upload_file L m p name w = store_blob L m P (py_or name (path_name p)) ''file'' w"
  by (simp add: MockIPFSClient_upload_file_def path_exists_def read_file_eq)

lemma store_blob_Inr:
  assumes "store_blob L m d name kind w = (Inr r, m', w')"
  shows "r = Some (compute_hash L d)"
    and "\<exists>kvs. metadata m = JObj kvs \<and> metadata m' = JObj (dict_set (compute_hash L d) (meta_entry name (length d) kind) kvs)"
    and "storage_dir m' = storage_dir m"
    and "fs w' = (fs w)(blob_path m (compute_hash L d) \<mapsto> File d,
                       metadata_file m \<mapsto> File (json_dumps_indent L (metadata m')))"
  using assms unfolding store_blob_eq
  by (auto split: if_splits json.splits)

lemma store_blob_again:
  assumes "store_blob L m d name kind w = (Inr r, m', w')"
  shows "\<exists>m'' w''. store_blob L m' d name2 kind2 w' = (Inr r, m'', w'')"
proof -
  have ne: "blob_path m (compute_hash L d) \<noteq> metadata_file m"
    by (rule blob_path_not_metadata) (rule compute_hash_shape)
  from store_blob_Inr [OF assms] obtain kvs where
    r: "r = Some (compute_hash L d)" and
    md: "metadata m' = JObj kvs" and
    sd: "storage_dir m' = storage_dir m" and
    f: "fs w' = (fs w)(blob_path m (compute_hash L d) \<mapsto> File d,
                       metadata_file m \<mapsto> File (json_dumps_indent L (metadata m')))"
    by blast
  have bp: "blob_path m' c = blob_path m c" for c by (simp add: blob_path_def sd)
  have mf: "metadata_file m' = metadata_file m" by (simp add: metadata_file_def sd)
  show ?thesis
    unfolding store_blob_eq [of L m'] using ne by (simp add: md bp mf f r)
qed

text \<open>
  Claim C4. The CID the mock returns for a file is \<open>compute_hash\<close> of the bytes read,
  that is \<^verbatim>\<open>Qm\<close> and the first 44 hexadecimal digits of their SHA-256 digest: it depends on
  the bytes only, not on the path, the name, the index or the directory. When an upload of
  a file holding \<open>P\<close> has returned a CID, a second upload of a file holding \<open>P\<close> through the
  same store returns that CID again, and so does every upload of \<open>P\<close> through any mock store
  that returns at all.
\<close>

theorem C4_mock_cid_deterministic:
  assumes "fs w p = Some (File P)"
      and "MockIPFSClient_upload_file L m p name w = (Inr (Some cid), m', w')"
  shows "cid = compute_hash L P
       \<and> (fs w' p2 = Some (File P) \<longrightarrow>
            fst (MockIPFSClient_upload_file L m' p2 name2 w') = Inr (Some cid))
       \<and> (fs w3 p3 = Some (File P) \<and> fst (MockIPFSClient_upload_file L m3 p3 name3 w3) = Inr r
            \<longrightarrow> r = Some cid)"
proof -
  from assms have sb: "store_blob L m P (py_or name (path_name p)) ''file'' w = (Inr (Some cid), m', w')"
    by (simp add: upload_file_eq)
  from store_blob_Inr(1) [OF sb] have c: "cid = compute_hash L P" by simp
  have two: "fst (MockIPFSClient_upload_file L m' p2 name2 w') = Inr (Some cid)"
    if h: "fs w' p2 = Some (File P)"
  proof -
    from store_blob_again [OF sb] obtain m'' w'' where
      "store_blob L m' P (py_or name2 (path_name p2)) ''file'' w' = (Inr (Some cid), m'', w'')"
      by blast
    with h show ?thesis by (simp add: upload_file_eq)
  qed
  have any: "r = Some cid"
    if h: "fs w3 p3 = Some (File P)" and u: "fst (MockIPFSClient_upload_file L m3 p3 name3 w3) = Inr r"
  proof -
    obtain m4 w4 where "MockIPFSClient_upload_file L m3 p3 name3 w3 = (Inr r, m4, w4)"
      using u by (metis fst_conv surj_pair)
    with h have "store_blob L m3 P (py_or name3 (path_name p3)) ''file'' w3 = (Inr r, m4, w4)"
      by (simp add: upload_file_eq)
    from store_blob_Inr(1) [OF this] c show ?thesis by simp
  qed
  from c two any show ?thesis by blast
qed








lemma mock0_paths:
  "is_mock_cid c \<Longrightarrow> blob_path mock0 c = Path False [''ipfs_mock'', c]"
  "metadata_file mock0 = Path False [''ipfs_mock'', ''metadata.json'']"
  by (simp_all add: blob_path_def mock0_def joinpath_cid metadata_file_def joinpath_metadata)

lemma world1_fs:
  "fs world1 file1 = Some (File payload1)"
  "fs world1 (Path False [''ipfs_mock'', c]) = None"
  by (simp_all add: world1_def file1_def)

lemma mock0_metadata: "metadata mock0 = JObj []"
  by (simp add: mock0_def)

lemma store_blob_world1:
  "store_blob L mock0 d name kind world1 =
     (Inr (Some (compute_hash L d)),
      mock0\<lparr>metadata := JObj [(compute_hash L d, meta_entry name (length d) kind)]\<rparr>,
      world1\<lparr>fs := (fs world1)(Path False [''ipfs_mock'', compute_hash L d] \<mapsto> File d,
         Path False [''ipfs_mock'', ''metadata.json''] \<mapsto>
           File (json_dumps_indent L (JObj [(compute_hash L d, meta_entry name (length d) kind)])))\<rparr>)"
  unfolding store_blob_eq
  by (simp add: mock0_paths compute_hash_shape world1_fs mock0_metadata)

lemma uploaded1_eq:
  "uploaded1 L =
     (Inr (Some (compute_hash L payload1)),
      mock0\<lparr>metadata := JObj [(compute_hash L payload1,
                                 meta_entry ''weights.bin'' (length payload1) ''file'')]\<rparr>,
      world1\<lparr>fs := (fs world1)(Path False [''ipfs_mock'', compute_hash L payload1] \<mapsto> File payload1,
         Path False [''ipfs_mock'', ''metadata.json''] \<mapsto>
           File (json_dumps_indent L
                  (JObj [(compute_hash L payload1,
                          meta_entry ''weights.bin'' (length payload1) ''file'')])))\<rparr>)"
  unfolding uploaded1_def upload_file_eq [OF world1_fs(1)] store_blob_world1
  by (simp add: py_or_def path_name_def file1_def)

lemma uploaded1_parts:
  "fst (uploaded1 L) = Inr (Some (compute_hash L payload1))"
  "storage_dir (fst (snd (uploaded1 L))) = Path False [''ipfs_mock'']"
  "metadata (fst (snd (uploaded1 L))) =
     JObj [(compute_hash L payload1, meta_entry ''weights.bin'' (length payload1) ''file'')]"
  "fs (snd (snd (uploaded1 L))) file1 = Some (File payload1)"
  "fs (snd (snd (uploaded1 L))) (Path False [''ipfs_mock'', compute_hash L payload1]) = Some (File payload1)"
  "fs (snd (snd (uploaded1 L))) out1 = None"
  "fs (snd (snd (uploaded1 L))) (Path False [''out'']) = None"
  unfolding uploaded1_eq
  using mock_cid_not_metadata [OF compute_hash_shape, of L payload1]
  by (simp_all add: mock0_def world1_def file1_def out1_def)

theorem C4_mock_cid_deterministic_witness:
  "\<forall>L. fs world1 file1 = Some (File payload1)
     \<and> fst (uploaded1 L) = Inr (Some (compute_hash L payload1))
     \<and> fs (snd (snd (uploaded1 L))) file1 = Some (File payload1)
     \<and> fst (MockIPFSClient_upload_file L (fst (snd (uploaded1 L))) file1 (Some ''copy'')
              (snd (snd (uploaded1 L)))) = Inr (Some (compute_hash L payload1))"
proof
  fix L
  have h1: "fs world1 file1 = Some (File payload1)" by (rule world1_fs)
  have h2: "MockIPFSClient_upload_file L mock0 file1 None world1
              = (Inr (Some (compute_hash L payload1)), fst (snd (uploaded1 L)), snd (snd (uploaded1 L)))"
    unfolding uploaded1_def [symmetric] by (simp add: prod_eq_iff uploaded1_parts)
  have h3: "fs (snd (snd (uploaded1 L))) file1 = Some (File payload1)"
    by (rule uploaded1_parts)
  from C4_mock_cid_deterministic [OF h1 h2, of file1 "Some ''copy''"] h1 h3 uploaded1_parts(1) [of L]
  show "fs world1 file1 = Some (File payload1)
     \<and> fst (uploaded1 L) = Inr (Some (compute_hash L payload1))
     \<and> fs (snd (snd (uploaded1 L))) file1 = Some (File payload1)
     \<and> fst (MockIPFSClient_upload_file L (fst (snd (uploaded1 L))) file1 (Some ''copy'')
              (snd (snd (uploaded1 L)))) = Inr (Some (compute_hash L payload1))"
    by blast
qed












subsection \<open>The invariant of the mock's index\<close>














subsection \<open>The factory\<close>





lemma test_connection_eq:
  "IPFSClient_test_connection nw c w = (Inr (probe_ok nw c), w\<lparr>sent := sent w @ [probe_request c]\<rparr>)"
  by (simp add: IPFSClient_test_connection_def http_request_def except_return_def probe_ok_def
           split: sum.splits)






subsection \<open>The pin operation\<close>



text \<open>
  Claim C1: no transport or HTTP failure leaves an operation of the adapter as an
  exception. \<^verbatim>\<open>pin_cid\<close> breaks it: the method has no \<^verbatim>\<open>try\<close>, unlike \<^verbatim>\<open>upload_file\<close>,
  \<^verbatim>\<open>upload_json\<close>, \<^verbatim>\<open>download_file\<close>, \<^verbatim>\<open>download_json\<close> and \<^verbatim>\<open>test_connection\<close>. On a network that
  refuses the connection the call raises \<^verbatim>\<open>ConnectError\<close>, on the hosted and on the
  self-hosted client.
\<close>

theorem C1_pin_cid_raises_on_transport_failure:
  "fst (IPFSClient_pin_cid net_down pinata_client ''QmX'' None world0) = Inl ConnectError
 \<and> fst (IPFSClient_pin_cid net_down local_client ''QmX'' None world0) = Inl ConnectError"
  by (simp add: IPFSClient_pin_cid_def http_request_def net_down_def Let_def)

subsection \<open>What the other operations do with a failure\<close>

lemma except_return_Inr: "\<exists>v. fst (except_return d r) = Inr v"
  by (cases r) (auto simp: except_return_def split: sum.splits)

text \<open>
  The five operations with a \<^verbatim>\<open>try\<close> return a value whatever the network does: an
  exception of the transport, a status other than 200, a body that is not JSON or lacks
  the key all end as \<^verbatim>\<open>None\<close> or \<^verbatim>\<open>False\<close>. For \<^verbatim>\<open>download_file\<close> this holds once the
  \<^verbatim>\<open>mkdir\<close> of the output's parent, which stands before the \<^verbatim>\<open>try\<close>, has succeeded.
\<close>

theorem adapter_absorbs_failures:
  "(\<exists>v. fst (IPFSClient_upload_file L nw c p name w) = Inr v)
 \<and> (\<exists>v. fst (IPFSClient_upload_json L nw c doc nm w) = Inr v)
 \<and> (\<exists>v. fst (IPFSClient_download_json L nw c cid w) = Inr v)
 \<and> (\<exists>v. fst (IPFSClient_test_connection nw c w) = Inr v)
 \<and> (\<exists>v. fst (IPFSClient_download_file nw c cid out w) =
           (case mkdir (path_parent out) w of Inl e \<Rightarrow> Inl e | Inr w1 \<Rightarrow> Inr v))"
proof (intro conjI)
  show "\<exists>v. fst (IPFSClient_upload_file L nw c p name w) = Inr v"
    unfolding IPFSClient_upload_file_def by (simp add: except_return_Inr)
  show "\<exists>v. fst (IPFSClient_upload_json L nw c doc nm w) = Inr v"
    unfolding IPFSClient_upload_json_def by (rule except_return_Inr)
  show "\<exists>v. fst (IPFSClient_download_json L nw c cid w) = Inr v"
    unfolding IPFSClient_download_json_def by (rule except_return_Inr)
  show "\<exists>v. fst (IPFSClient_test_connection nw c w) = Inr v"
    unfolding IPFSClient_test_connection_def by (rule except_return_Inr)
  show "\<exists>v. fst (IPFSClient_download_file nw c cid out w) =
           (case mkdir (path_parent out) w of Inl e \<Rightarrow> Inl e | Inr w1 \<Rightarrow> Inr v)"
  proof (cases "mkdir (path_parent out) w")
    case (Inl e)
    then show ?thesis by (simp add: IPFSClient_download_file_def)
  next
    case (Inr w1)
    then show ?thesis
      unfolding IPFSClient_download_file_def using except_return_Inr by simp
  qed
qed

subsection \<open>Timeouts\<close>

lemma new_requests_simps:
  "new_requests w w = []"
  "new_requests w (w\<lparr>fs := f\<rparr>) = []"
  "new_requests w (w\<lparr>sent := sent w @ rs\<rparr>) = rs"
  "new_requests w (w\<lparr>sent := sent w @ rs, fs := f\<rparr>) = rs"
  "new_requests w (w\<lparr>fs := f, sent := sent w @ rs\<rparr>) = rs"
  by (simp_all add: new_requests_def)

lemma except_return_snd: "snd (except_return d r) = snd r"
  by (cases r) (auto simp: except_return_def split: sum.splits)

lemma upload_to_pinata_sent:
  "snd (upload_to_pinata L nw c p name w) =
     (case read_file p w of Inl e \<Rightarrow> w
      | Inr d \<Rightarrow> w\<lparr>sent := sent w @
          [\<lparr>http_method = ''POST'', url = base_url c @ ''/pinning/pinFileToIPFS'',
            headers = get_headers c, files = [(''file'', Some name, d)],
            form = [(''pinataMetadata'', json_dumps L (JObj [(''name'', JStr name)]))],
            json_body = None, timeout = 120, follow_redirects = False\<rparr>]\<rparr>)"
  by (simp add: upload_to_pinata_def http_request_def Let_def split: sum.splits)

lemma upload_to_local_ipfs_sent:
  "snd (upload_to_local_ipfs L nw c p w) =
     (case read_file p w of Inl e \<Rightarrow> w
      | Inr d \<Rightarrow> w\<lparr>sent := sent w @
          [\<lparr>http_method = ''POST'', url = ipfs_api_url c @ ''/api/v0/add'',
            headers = [], files = [(''file'', None, d)], form = [],
            json_body = None, timeout = 120, follow_redirects = False\<rparr>]\<rparr>)"
  by (simp add: upload_to_local_ipfs_def http_request_def Let_def split: sum.splits)

lemma upload_file_timeouts:
  "map timeout (new_requests w (snd (IPFSClient_upload_file L nw c p name w))) =
     (case fs w p of Some (File b) \<Rightarrow> [120] | _ \<Rightarrow> [])"
  by (auto simp: IPFSClient_upload_file_def except_return_snd upload_to_pinata_sent
        upload_to_local_ipfs_sent read_file_eq path_exists_def new_requests_simps
      split: option.splits node.splits)

lemma upload_json_timeouts:
  "map timeout (new_requests w (snd (IPFSClient_upload_json L nw c doc nm w))) =
     [if use_pinata c then 60 else 120]"
proof (cases "use_pinata c")
  case True
  then show ?thesis
    by (simp add: IPFSClient_upload_json_def except_return_snd upload_json_to_pinata_def
          http_request_def Let_def new_requests_simps split: sum.splits)
next
  case False
  have r: "read_file (tempname L) (write_handle (tempname L) b w) = Inr b" for b
    by (simp add: read_file_eq write_handle_def)
  have s: "sent (snd (upload_to_local_ipfs L nw c (tempname L)
                   (write_handle (tempname L) (json_dumps L doc) w))) =
           sent w @ [\<lparr>http_method = ''POST'', url = ipfs_api_url c @ ''/api/v0/add'',
            headers = [], files = [(''file'', None, json_dumps L doc)], form = [],
            json_body = None, timeout = 120, follow_redirects = False\<rparr>]"
    by (simp add: upload_to_local_ipfs_sent r) (simp add: write_handle_def)
  have u: "sent (case unlink q w1 of Inl e \<Rightarrow> w1 | Inr w3 \<Rightarrow> w3) = sent w1" for q w1
    by (simp add: unlink_def split: option.splits node.splits)
  have "sent (snd (IPFSClient_upload_json L nw c doc nm w)) =
        sent (snd (upload_to_local_ipfs L nw c (tempname L)
                   (write_handle (tempname L) (json_dumps L doc) w)))"
    using False
    by (auto simp: IPFSClient_upload_json_def except_return_snd Let_def unlink_def
             split: sum.splits option.splits node.splits)
  with s False show ?thesis by (simp add: new_requests_def)
qed

lemma download_file_timeouts:
  "map timeout (new_requests w (snd (IPFSClient_download_file nw c cid out w))) =
     (case fs w (path_parent out) of Some (File b) \<Rightarrow> [] | _ \<Rightarrow> [120])"
  by (auto simp: IPFSClient_download_file_def except_return_snd mkdir_def http_request_def
        Let_def get_request_def write_file_eq new_requests_def
      split: option.splits node.splits sum.splits)

lemma download_json_timeouts:
  "map timeout (new_requests w (snd (IPFSClient_download_json L nw c cid w))) = [60]"
  by (auto simp: IPFSClient_download_json_def except_return_snd http_request_def
        Let_def get_request_def new_requests_def split: sum.splits)

lemma pin_cid_timeouts:
  "map timeout (new_requests w (snd (IPFSClient_pin_cid nw c cid name w))) = [60]"
  by (auto simp: IPFSClient_pin_cid_def http_request_def Let_def pin_request_def new_requests_def
      split: sum.splits)

lemma test_connection_timeouts:
  "map timeout (new_requests w (snd (IPFSClient_test_connection nw c w))) = [10]"
  by (simp add: test_connection_eq new_requests_def probe_request_def)

text \<open>
  Claim C8, as amended. Every request of the adapter carries the timeout of its code path,
  on the hosted and on the self-hosted backend: 120 seconds for \<^verbatim>\<open>upload_file\<close> and
  \<^verbatim>\<open>download_file\<close> (which send one request once the file could be read, respectively the
  output directory made), 60 seconds for \<^verbatim>\<open>download_json\<close> and \<^verbatim>\<open>pin_cid\<close>, 10 seconds for
  \<^verbatim>\<open>test_connection\<close>; \<^verbatim>\<open>upload_json\<close> sends its one request with 60 seconds on the hosted
  backend and, going through the file upload, with 120 seconds on the self-hosted one.
\<close>

theorem C8_request_timeouts:
  "map timeout (new_requests w (snd (IPFSClient_upload_file L nw c p name w)))
      = (case fs w p of Some (File b) \<Rightarrow> [120] | _ \<Rightarrow> [])
 \<and> map timeout (new_requests w (snd (IPFSClient_download_file nw c cid out w)))
      = (case fs w (path_parent out) of Some (File b) \<Rightarrow> [] | _ \<Rightarrow> [120])
 \<and> map timeout (new_requests w (snd (IPFSClient_upload_json L nw c doc nm w)))
      = [if use_pinata c then 60 else 120]
 \<and> map timeout (new_requests w (snd (IPFSClient_download_json L nw c cid w))) = [60]
 \<and> map timeout (new_requests w (snd (IPFSClient_pin_cid nw c cid name w))) = [60]
 \<and> map timeout (new_requests w (snd (IPFSClient_test_connection nw c w))) = [10]"
  by (simp only: upload_file_timeouts download_file_timeouts upload_json_timeouts
        download_json_timeouts pin_cid_timeouts test_connection_timeouts simp_thms)

text \<open>
  Claim C8 as stated fails for the JSON upload on the self-hosted backend: the document
  is written to a temporary file and sent by \<^verbatim>\<open>_upload_to_local_ipfs\<close>, whose client has a
  timeout of 120 seconds, not 60.
\<close>

theorem C8_local_json_upload_counterexample:
  "\<forall>L nw. map timeout (new_requests world0
              (snd (IPFSClient_upload_json L nw local_client doc1 ''data.json'' world0))) = [120]
     \<and> \<not> use_pinata local_client"
  by (simp add: upload_json_timeouts) (simp add: local_client_def IPFSClient_init_def)

subsection \<open>Normalisation of the CID\<close>

text \<open>
  Claim C6: every read path normalises its CID. \<^verbatim>\<open>MockIPFSClient.get_gateway_url\<close> breaks it:
  it formats the argument as given, while \<^verbatim>\<open>IPFSClient.get_gateway_url\<close> and the four
  download methods first remove \<^verbatim>\<open>ipfs://\<close> and strip whitespace. The mock's URL for
  \<^verbatim>\<open>ipfs://QmX\<close> and for \<^verbatim>\<open> QmX \<close> differs from its URL for \<^verbatim>\<open>QmX\<close>.
\<close>

theorem C6_mock_gateway_url_not_normalised:
  "MockIPFSClient_get_gateway_url mock0 ''ipfs://QmX'' = ''file://ipfs_mock/ipfs://QmX''
 \<and> MockIPFSClient_get_gateway_url mock0 '' QmX '' = ''file://ipfs_mock/ QmX ''
 \<and> MockIPFSClient_get_gateway_url mock0 ''QmX'' = ''file://ipfs_mock/QmX''"
  by (simp add: MockIPFSClient_get_gateway_url_def mock0_def path_str_def)

text \<open>
  The other five read paths do normalise: with \<^verbatim>\<open>ipfs://\<close> in front of a CID, or a space on
  each side of it, each of them behaves exactly as with the CID itself.
\<close>

theorem read_paths_normalise:
  "MockIPFSClient_download_file m (''ipfs://'' @ x) out w = MockIPFSClient_download_file m x out w
 \<and> MockIPFSClient_download_file m ('' '' @ x @ '' '') out w = MockIPFSClient_download_file m x out w
 \<and> MockIPFSClient_download_json L m (''ipfs://'' @ x) w = MockIPFSClient_download_json L m x w
 \<and> MockIPFSClient_download_json L m ('' '' @ x @ '' '') w = MockIPFSClient_download_json L m x w
 \<and> IPFSClient_download_file nw c (''ipfs://'' @ x) out w = IPFSClient_download_file nw c x out w
 \<and> IPFSClient_download_file nw c ('' '' @ x @ '' '') out w = IPFSClient_download_file nw c x out w
 \<and> IPFSClient_download_json L nw c (''ipfs://'' @ x) w = IPFSClient_download_json L nw c x w
 \<and> IPFSClient_download_json L nw c ('' '' @ x @ '' '') w = IPFSClient_download_json L nw c x w
 \<and> IPFSClient_get_gateway_url c (''ipfs://'' @ x) = IPFSClient_get_gateway_url c x
 \<and> IPFSClient_get_gateway_url c ('' '' @ x @ '' '') = IPFSClient_get_gateway_url c x"
  unfolding MockIPFSClient_download_file_def MockIPFSClient_download_json_def
    IPFSClient_download_file_def IPFSClient_download_json_def IPFSClient_get_gateway_url_def
    clean_cid_forms
  by simp

subsection \<open>The shape of a mock CID\<close>

lemma hexdigest_length: "length (hexdigest L d) = 2 * length (sha256 L d)"
  unfolding hexdigest_def by (induction "sha256 L d" arbitrary: d) (simp_all add: hex_byte_def length_concat comp_def sum_list_triv)

text \<open>
  A CID of the mock is \<^verbatim>\<open>Qm\<close> followed by lower-case hexadecimal digits, at most 44 of
  them: 46 characters in all for a digest of 22 bytes or more, as SHA-256 gives.
\<close>

theorem mock_cid_shape:
  "is_mock_cid (compute_hash L d)
 \<and> length (compute_hash L d) = 2 + min 44 (2 * length (sha256 L d))"
  using compute_hash_shape [of L d] by (simp add: compute_hash_def hexdigest_length)

subsection \<open>When a mock upload succeeds\<close>

text \<open>
  \<^verbatim>\<open>MockIPFSClient.upload_file\<close> has no \<^verbatim>\<open>try\<close>. For a path that holds a regular file it returns
  a CID exactly when the blob's path is not a directory, the index held in memory is a
  dict and \<^verbatim>\<open>metadata.json\<close> is not a directory; otherwise it raises.
\<close>

theorem mock_upload_succeeds_iff:
  assumes "fs w p = Some (File P)"
  shows "(\<exists>cid m' w'. MockIPFSClient_upload_file L m p name w = (Inr (Some cid), m', w'))
       = (fs w (blob_path m (compute_hash L P)) \<noteq> Some Dir
          \<and> (case metadata m of JObj kvs \<Rightarrow> True | _ \<Rightarrow> False)
          \<and> fs w (metadata_file m) \<noteq> Some Dir)"
  unfolding upload_file_eq [OF assms] store_blob_eq
  by (cases "metadata m") auto

theorem mock_upload_succeeds_iff_witness:
  "\<forall>L. fs world1 file1 = Some (File payload1)
     \<and> (\<exists>cid m' w'. MockIPFSClient_upload_file L mock0 file1 None world1 = (Inr (Some cid), m', w'))
     \<and> fs world1 (blob_path mock0 (compute_hash L payload1)) \<noteq> Some Dir
     \<and> (case metadata mock0 of JObj kvs \<Rightarrow> True | _ \<Rightarrow> False)
     \<and> fs world1 (metadata_file mock0) \<noteq> Some Dir"
proof
  fix L
  have h: "fs world1 file1 = Some (File payload1)" by (rule world1_fs)
  have r: "fs world1 (blob_path mock0 (compute_hash L payload1)) \<noteq> Some Dir
     \<and> (case metadata mock0 of JObj kvs \<Rightarrow> True | _ \<Rightarrow> False)
     \<and> fs world1 (metadata_file mock0) \<noteq> Some Dir"
    by (simp add: mock0_paths compute_hash_shape world1_fs mock0_metadata)
  from h r mock_upload_succeeds_iff [OF h, of L mock0 None]
  show "fs world1 file1 = Some (File payload1)
     \<and> (\<exists>cid m' w'. MockIPFSClient_upload_file L mock0 file1 None world1 = (Inr (Some cid), m', w'))
     \<and> fs world1 (blob_path mock0 (compute_hash L payload1)) \<noteq> Some Dir
     \<and> (case metadata mock0 of JObj kvs \<Rightarrow> True | _ \<Rightarrow> False)
     \<and> fs world1 (metadata_file mock0) \<noteq> Some Dir"
    by blast
qed

end
